theory Spec2Isabelle
  imports Main
begin

section \<open>Data model of the signaling server (main.go)\<close>

text \<open>
  The three structs of main.go become records. Record fields are global constants in
  Isabelle, so every field carries the initial of its struct: \<open>uID\<close> is \<open>User.ID\<close>,
  \<open>cRoom\<close> is \<open>Client.Room\<close>, \<open>mFrom\<close> is \<open>Message.From\<close>.
  A \<open>json.RawMessage\<close> is a byte slice, here a \<open>string\<close> (a list of 8-bit characters);
  the \<open>*bool\<close> of \<open>Message.MicOn\<close> is a \<open>bool option\<close>, \<open>None\<close> for the nil pointer.
\<close>

record User =
  uID :: string
  uMicOn :: bool

record Message =
  mType :: string
  mRoom :: string
  mTo :: string
  mFrom :: string
  mOffer :: string
  mAnswer :: string
  mCandidate :: string
  mMicOn :: "bool option"
  mUsers :: "User list"
  mID :: string

text \<open>A \<open>*websocket.Conn\<close> is an opaque handle; a \<open>*Client\<close> is an address in the store.\<close>

type_synonym conn = nat
type_synonym ref = nat

record Client =
  cID :: string
  cConn :: conn
  cRoom :: string
  cMicOn :: bool

text \<open>
  The package-level variables \<open>clients\<close> (a map from identifier to \<open>*Client\<close>) and
  \<open>roomUsers\<close> (a map from room name to a slice of identifiers), together with the store
  of \<open>Client\<close> structs the pointers refer to. The handler of a connection keeps its
  \<open>client\<close> pointer after the entry of \<open>clients\<close> is deleted, so the structs live in
  \<open>heap\<close> and both the map and the handlers hold addresses. \<open>nextRef\<close> is the next
  address to allocate, \<open>live\<close> the handlers that are inside their read loop, and
  \<open>sent\<close> the calls of \<open>conn.WriteJSON\<close> in the order they were made.
\<close>

record state =
  clients :: "string \<rightharpoonup> ref"
  roomUsers :: "string \<rightharpoonup> string list"
  heap :: "ref \<Rightarrow> Client"
  nextRef :: ref
  live :: "ref set"
  sent :: "(conn \<times> Message) list"

text \<open>The zero value of \<open>Message\<close>, which a composite literal fills in for omitted fields.\<close>

definition zeroMessage :: Message where
  "zeroMessage = \<lparr>mType = [], mRoom = [], mTo = [], mFrom = [], mOffer = [],
     mAnswer = [], mCandidate = [], mMicOn = None, mUsers = [], mID = []\<rparr>"

definition zeroClient :: Client where
  "zeroClient = \<lparr>cID = [], cConn = 0, cRoom = [], cMicOn = False\<rparr>"

text \<open>The state at program start: both maps empty, nothing allocated, nothing written.\<close>

definition init :: state where
  "init = \<lparr>clients = Map.empty, roomUsers = Map.empty, heap = (\<lambda>_. zeroClient),
     nextRef = 0, live = {}, sent = []\<rparr>"

text \<open>
  \<open>roomUsers[room]\<close> read as a value: Go yields the nil slice for a missing key.
\<close>

definition members :: "state \<Rightarrow> string \<Rightarrow> string list" where
  "members s room = (case roomUsers s room of None \<Rightarrow> [] | Some ids \<Rightarrow> ids)"

section \<open>Sending\<close>

text \<open>\<open>sendMessage\<close>: one \<open>WriteJSON\<close> on the connection; its error is discarded.\<close>

definition sendMessage :: "conn \<Rightarrow> Message \<Rightarrow> state \<Rightarrow> state" where
  "sendMessage c msg s = s\<lparr>sent := sent s @ [(c, msg)]\<rparr>"

text \<open>\<open>sendTo\<close>: look the identifier up in \<open>clients\<close>; send only when it is there.\<close>

definition sendTo :: "string \<Rightarrow> Message \<Rightarrow> state \<Rightarrow> state" where
  "sendTo i msg s =
     (case clients s i of
        Some target \<Rightarrow> sendMessage (cConn (heap s target)) msg s
      | None \<Rightarrow> s)"

section \<open>What WriteJSON puts on the wire\<close>

text \<open>
  \<open>conn.WriteJSON\<close> is library code (gorilla/websocket over encoding/json): it encodes
  the \<open>Message\<close> with \<open>json.NewEncoder(w).Encode\<close>, whose HTML escaping is on. A
  \<open>json.RawMessage\<close> field is not copied to the frame: the encoder passes its bytes
  through the library's \<open>appendCompact\<close>. Byte by byte, that function writes \<open><\<close>,
  \<open>>\<close> and \<open>&\<close> as \<open>\u003c\<close>, \<open>\u003e\<close> and \<open>\u0026\<close>, writes the UTF-8 bytes
  \<open>E2 80 A8\<close> and \<open>E2 80 A9\<close> as \<open>\u2028\<close> and \<open>\u2029\<close>, drops every byte at which its
  scanner reports skipped space, and copies the rest. The payload of a decoded frame is
  a valid JSON value; on such a value the scanner reports skipped space exactly at a
  space, tab, carriage return or line feed outside a string literal, which is all the
  three states below keep track of.
\<close>

datatype scan = Outside | InString | InEscape

fun scan_step :: "scan \<Rightarrow> char \<Rightarrow> scan" where
  "scan_step Outside c = (if c = CHR 0x22 then InString else Outside)"
| "scan_step InString c =
     (if c = CHR 0x5C then InEscape else if c = CHR 0x22 then Outside else InString)"
| "scan_step InEscape c = InString"

definition isSpace :: "char \<Rightarrow> bool" where
  "isSpace c = (c = CHR 0x20 \<or> c = CHR 0x09 \<or> c = CHR 0x0D \<or> c = CHR 0x0A)"

fun appendCompact :: "scan \<Rightarrow> string \<Rightarrow> string" where
  "appendCompact st [] = []"
| "appendCompact st (c # src) =
     (if c = CHR ''<'' then CHR 0x5C # ''u003c'' @ appendCompact (scan_step st c) src
      else if c = CHR ''>'' then CHR 0x5C # ''u003e'' @ appendCompact (scan_step st c) src
      else if c = CHR ''&'' then CHR 0x5C # ''u0026'' @ appendCompact (scan_step st c) src
      else if c = CHR 0xE2 then
        (case src of
           d # e # rest \<Rightarrow>
             if d = CHR 0x80 \<and> (e = CHR 0xA8 \<or> e = CHR 0xA9) then
               CHR 0x5C # ''u202'' @ [if e = CHR 0xA8 then CHR ''8'' else CHR ''9''] @
                 appendCompact (scan_step (scan_step (scan_step st c) d) e) rest
             else c # appendCompact (scan_step st c) src
         | _ \<Rightarrow> c # appendCompact (scan_step st c) src)
      else if st = Outside \<and> isSpace c then appendCompact st src
      else c # appendCompact (scan_step st c) src)"

text \<open>
  The message as the frame carries it: the three \<open>json.RawMessage\<close> fields are the
  bytes the encoder wrote for them, the other fields the values handed to \<open>WriteJSON\<close>.
  \<open>delivered\<close> is the log of writes read that way.
\<close>

definition writeJSON_frame :: "Message \<Rightarrow> Message" where
  "writeJSON_frame m = m\<lparr>mOffer := appendCompact Outside (mOffer m),
     mAnswer := appendCompact Outside (mAnswer m),
     mCandidate := appendCompact Outside (mCandidate m)\<rparr>"

definition delivered :: "state \<Rightarrow> (conn \<times> Message) list" where
  "delivered s = map (\<lambda>(c, m). (c, writeJSON_frame m)) (sent s)"

text \<open>
  Payloads that the encoder surely leaves as they are: no space, tab, carriage return
  or line feed, none of \<open><\<close>, \<open>>\<close>, \<open>&\<close>, and no byte \<open>E2\<close>.
\<close>

definition compactForm :: "string \<Rightarrow> bool" where
  "compactForm p =
     list_all (\<lambda>c. \<not> isSpace c \<and> c \<noteq> CHR ''<'' \<and> c \<noteq> CHR ''>'' \<and>
                   c \<noteq> CHR ''&'' \<and> c \<noteq> CHR 0xE2) p"

section \<open>broadcastUserList\<close>

text \<open>
  The first loop of \<open>broadcastUserList\<close>: it walks the member slice and appends a
  \<open>User\<close> for every identifier found in \<open>clients\<close>. The third argument is the slice
  \<open>users\<close> built so far.
\<close>

fun broadcastUserList_users :: "state \<Rightarrow> string list \<Rightarrow> User list \<Rightarrow> User list" where
  "broadcastUserList_users s [] users = users"
| "broadcastUserList_users s (i # ids) users =
     (case clients s i of
        Some c \<Rightarrow> broadcastUserList_users s ids
                    (users @ [\<lparr>uID = cID (heap s c), uMicOn = cMicOn (heap s c)\<rparr>])
      | None \<Rightarrow> broadcastUserList_users s ids users)"

text \<open>The second loop: one \<open>user_list\<close> message to every identifier found in \<open>clients\<close>.\<close>

fun broadcastUserList_send :: "User list \<Rightarrow> string list \<Rightarrow> state \<Rightarrow> state" where
  "broadcastUserList_send users [] s = s"
| "broadcastUserList_send users (i # ids) s =
     (case clients s i of
        Some c \<Rightarrow> broadcastUserList_send users ids
                    (sendMessage (cConn (heap s c))
                       (zeroMessage\<lparr>mType := ''user_list'', mUsers := users\<rparr>) s)
      | None \<Rightarrow> broadcastUserList_send users ids s)"

definition broadcastUserList :: "string \<Rightarrow> state \<Rightarrow> state" where
  "broadcastUserList room s =
     (let users = broadcastUserList_users s (members s room) []
      in broadcastUserList_send users (members s room) s)"

section \<open>removeClient\<close>

text \<open>The loop of \<open>removeClient\<close>: copy every identifier other than \<open>c.ID\<close> to \<open>updated\<close>.\<close>

fun removeClient_updated :: "string \<Rightarrow> string list \<Rightarrow> string list \<Rightarrow> string list" where
  "removeClient_updated cid [] updated = updated"
| "removeClient_updated cid (i # ids) updated =
     (if i \<noteq> cid then removeClient_updated cid ids (updated @ [i])
      else removeClient_updated cid ids updated)"

definition removeClient :: "ref \<Rightarrow> state \<Rightarrow> state" where
  "removeClient c s =
     (let s1 = s\<lparr>clients := (clients s)(cID (heap s c) := None)\<rparr>
      in case roomUsers s1 (cRoom (heap s1 c)) of
           Some users \<Rightarrow>
             s1\<lparr>roomUsers := (roomUsers s1)(cRoom (heap s1 c) \<mapsto>
                   removeClient_updated (cID (heap s1 c)) users [])\<rparr>
         | None \<Rightarrow> s1)"

section \<open>handleWebSocket\<close>

text \<open>
  The \<open>switch\<close> on \<open>msg.Type\<close> inside the read loop, for the handler whose \<open>client\<close>
  pointer is the first argument. Log lines are not part of the state.
\<close>

definition handleMessage :: "ref \<Rightarrow> Message \<Rightarrow> state \<Rightarrow> state" where
  "handleMessage client msg s =
     (if mType msg = ''join'' then
        let s1 = s\<lparr>heap := (heap s)(client := (heap s client)\<lparr>cRoom := mRoom msg\<rparr>)\<rparr>;
            s2 = s1\<lparr>roomUsers := (roomUsers s1)(mRoom msg \<mapsto>
                       members s1 (mRoom msg) @ [cID (heap s1 client)])\<rparr>
        in broadcastUserList (mRoom msg) s2
      else if mType msg = ''leave'' then
        broadcastUserList (mRoom msg) (removeClient client s)
      else if mType msg = ''mic'' then
        (case mMicOn msg of
           Some b \<Rightarrow>
             let s1 = s\<lparr>heap := (heap s)(client := (heap s client)\<lparr>cMicOn := b\<rparr>)\<rparr>
             in broadcastUserList (cRoom (heap s1 client)) s1
         | None \<Rightarrow> s)
      else if mType msg = ''offer'' \<or> mType msg = ''answer'' \<or> mType msg = ''candidate'' then
        sendTo (mTo msg) (msg\<lparr>mFrom := cID (heap s client)\<rparr>) s
      else s)"

text \<open>
  What \<open>ReadMessage\<close> and \<open>json.Unmarshal\<close> hand to one iteration of the loop: a decoded
  message, or bytes that do not decode (the loop logs and continues).
\<close>

datatype frame = Decoded Message | Malformed

fun handleWebSocket_frame :: "ref \<Rightarrow> frame \<Rightarrow> state \<Rightarrow> state" where
  "handleWebSocket_frame client Malformed s = s"
| "handleWebSocket_frame client (Decoded msg) s = handleMessage client msg s"

text \<open>
  The code before the loop, after a successful upgrade: allocate the \<open>Client\<close> with
  \<open>MicOn: true\<close>, store it under its identifier, send the identifier to the new
  connection. The identifier (from \<open>uuid.New\<close>) and the connection are inputs.
\<close>

definition handleWebSocket_connect :: "string \<Rightarrow> conn \<Rightarrow> state \<Rightarrow> state" where
  "handleWebSocket_connect i c s =
     (let client = nextRef s;
          s1 = s\<lparr>heap := (heap s)(client := \<lparr>cID = i, cConn = c, cRoom = [], cMicOn = True\<rparr>),
                 nextRef := Suc client,
                 live := insert client (live s)\<rparr>;
          s2 = s1\<lparr>clients := (clients s1)(i \<mapsto> client)\<rparr>
      in sendMessage c (zeroMessage\<lparr>mType := ''id'', mID := i\<rparr>) s2)"

text \<open>The code after the loop: \<open>removeClient(client)\<close>, then \<open>broadcastUserList(client.Room)\<close>.\<close>

definition handleWebSocket_exit :: "ref \<Rightarrow> state \<Rightarrow> state" where
  "handleWebSocket_exit client s =
     (let s1 = removeClient client s;
          s2 = broadcastUserList (cRoom (heap s1 client)) s1
      in s2\<lparr>live := live s2 - {client}\<rparr>)"

text \<open>
  The read loop of one handler on the frames it receives before \<open>ReadMessage\<close> fails:
  every frame is handled in order, then the loop breaks and the exit code runs.
\<close>

fun handleWebSocket_loop :: "ref \<Rightarrow> frame list \<Rightarrow> state \<Rightarrow> state" where
  "handleWebSocket_loop client [] s = handleWebSocket_exit client s"
| "handleWebSocket_loop client (f # fs) s =
     handleWebSocket_loop client fs (handleWebSocket_frame client f s)"

section \<open>The server as a transition system\<close>

text \<open>
  Handlers of different connections interleave. An event is one connection being
  accepted, one frame read by a running handler, or one handler's read failing; each
  runs to completion before the next. A frame or a read error of a handler that is not
  in its loop cannot happen and leaves the state as it is. The identifier of a new
  connection is whatever \<open>uuid.New\<close> returns: nothing below assumes it is fresh.
\<close>

datatype event = Connect string conn | Recv ref frame | ReadError ref

fun step :: "event \<Rightarrow> state \<Rightarrow> state" where
  "step (Connect i c) s = handleWebSocket_connect i c s"
| "step (Recv client f) s =
     (if client \<in> live s then handleWebSocket_frame client f s else s)"
| "step (ReadError client) s =
     (if client \<in> live s then handleWebSocket_exit client s else s)"

inductive reachable :: "state \<Rightarrow> bool" where
  reachable_init: "reachable init"
| reachable_step: "reachable s \<Longrightarrow> reachable (step e s)"

section \<open>Example messages and runs\<close>

text \<open>Messages as a client sends them: only the fields named are set.\<close>

definition joinMsg :: "string \<Rightarrow> Message" where
  "joinMsg room = zeroMessage\<lparr>mType := ''join'', mRoom := room\<rparr>"

definition leaveMsg :: "string \<Rightarrow> Message" where
  "leaveMsg room = zeroMessage\<lparr>mType := ''leave'', mRoom := room\<rparr>"

definition offerMsg :: "string \<Rightarrow> string \<Rightarrow> string \<Rightarrow> Message" where
  "offerMsg target claimed payload =
     zeroMessage\<lparr>mType := ''offer'', mTo := target, mFrom := claimed, mOffer := payload\<rparr>"

text \<open>
  Runs from the initial state. Connection \<open>A\<close> (handler 0, socket 10) connects;
  in \<open>exA\<close> it has joined room \<open>r1\<close>; in \<open>exAB\<close> a second connection \<open>B\<close> (handler 1,
  socket 11) has joined \<open>r1\<close> too; in \<open>exRooms\<close> \<open>B\<close> has joined \<open>r2\<close> instead; in
  \<open>exSwitch\<close> \<open>A\<close> alone has joined \<open>r1\<close> and then \<open>r2\<close>; in \<open>exStale\<close> \<open>A\<close> has left
  \<open>r1\<close> and joined it again while \<open>B\<close> stayed.
\<close>

definition exConn :: state where
  "exConn = step (Connect ''A'' 10) init"

definition exA :: state where
  "exA = step (Recv 0 (Decoded (joinMsg ''r1''))) exConn"

definition exAB :: state where
  "exAB = step (Recv 1 (Decoded (joinMsg ''r1''))) (step (Connect ''B'' 11) exA)"

definition exRooms :: state where
  "exRooms = step (Recv 1 (Decoded (joinMsg ''r2''))) (step (Connect ''B'' 11) exA)"

definition exSwitch :: state where
  "exSwitch = step (Recv 0 (Decoded (joinMsg ''r2''))) exA"

definition exStale :: state where
  "exStale = step (Recv 0 (Decoded (joinMsg ''r1'')))
               (step (Recv 0 (Decoded (leaveMsg ''r1''))) exAB)"

section \<open>The loops in closed form\<close>

lemma removeClient_updated_filter:
  "removeClient_updated cid ids updated = updated @ filter (\<lambda>i. i \<noteq> cid) ids"
  by (induction ids arbitrary: updated) auto

lemma broadcastUserList_users_append:
  "broadcastUserList_users s ids users =
     users @ map (\<lambda>c. \<lparr>uID = cID (heap s c), uMicOn = cMicOn (heap s c)\<rparr>)
               (List.map_filter (clients s) ids)"
  by (induction ids arbitrary: users) (auto split: option.splits)

lemma sendMessage_fields [simp]:
  "clients (sendMessage c m s) = clients s"
  "roomUsers (sendMessage c m s) = roomUsers s"
  "heap (sendMessage c m s) = heap s"
  "nextRef (sendMessage c m s) = nextRef s"
  "live (sendMessage c m s) = live s"
  "sent (sendMessage c m s) = sent s @ [(c, m)]"
  by (simp_all add: sendMessage_def)

lemma broadcastUserList_send_eq:
  "broadcastUserList_send users ids s =
     s\<lparr>sent := sent s @
        map (\<lambda>c. (cConn (heap s c), zeroMessage\<lparr>mType := ''user_list'', mUsers := users\<rparr>))
          (List.map_filter (clients s) ids)\<rparr>"
proof (induction ids arbitrary: s)
  case Nil
  show ?case by simp
next
  case (Cons i ids)
  show ?case
  proof (cases "clients s i")
    case None
    then show ?thesis using Cons.IH [of s] by simp
  next
    case (Some c)
    then show ?thesis
      using Cons.IH [of "sendMessage (cConn (heap s c))
                           (zeroMessage\<lparr>mType := ''user_list'', mUsers := users\<rparr>) s"]
      by (simp add: sendMessage_def)
  qed
qed

lemma broadcastUserList_eq:
  "broadcastUserList room s =
     s\<lparr>sent := sent s @
        map (\<lambda>c. (cConn (heap s c),
               zeroMessage\<lparr>mType := ''user_list'',
                 mUsers := broadcastUserList_users s (members s room) []\<rparr>))
          (List.map_filter (clients s) (members s room))\<rparr>"
  by (simp add: broadcastUserList_def Let_def broadcastUserList_send_eq)

lemma broadcastUserList_fields [simp]:
  "clients (broadcastUserList room s) = clients s"
  "roomUsers (broadcastUserList room s) = roomUsers s"
  "heap (broadcastUserList room s) = heap s"
  "nextRef (broadcastUserList room s) = nextRef s"
  "live (broadcastUserList room s) = live s"
  by (simp_all add: broadcastUserList_eq)

lemma members_broadcastUserList [simp]:
  "members (broadcastUserList room s) r = members s r"
  by (simp add: members_def)

lemma map_filter_mem:
  "i \<in> set ids \<Longrightarrow> f i = Some r \<Longrightarrow> r \<in> set (List.map_filter f ids)"
  by (induction ids) (auto split: option.splits)

lemma appendCompact_plain: "compactForm p \<Longrightarrow> appendCompact st p = p"
  by (induction p arbitrary: st) (auto simp: compactForm_def)

section \<open>What removeClient changes\<close>

lemma removeClient_fields [simp]:
  "clients (removeClient c s) = (clients s)(cID (heap s c) := None)"
  "heap (removeClient c s) = heap s"
  "nextRef (removeClient c s) = nextRef s"
  "live (removeClient c s) = live s"
  "sent (removeClient c s) = sent s"
  by (simp_all add: removeClient_def Let_def split: option.splits)

lemma roomUsers_removeClient:
  "roomUsers (removeClient c s) =
     (case roomUsers s (cRoom (heap s c)) of
        Some users \<Rightarrow>
          (roomUsers s)(cRoom (heap s c) \<mapsto> filter (\<lambda>i. i \<noteq> cID (heap s c)) users)
      | None \<Rightarrow> roomUsers s)"
  by (simp add: removeClient_def Let_def removeClient_updated_filter split: option.splits)

lemma members_removeClient:
  "members (removeClient c s) room =
     (if room = cRoom (heap s c) then filter (\<lambda>i. i \<noteq> cID (heap s c)) (members s room)
      else members s room)"
  by (simp add: members_def roomUsers_removeClient split: option.splits)

lemma removeClient_idem: "removeClient c (removeClient c s) = removeClient c s"
  by (simp add: removeClient_def Let_def removeClient_updated_filter split: option.splits)

section \<open>The registry invariant\<close>

text \<open>
  In every reachable state an entry of \<open>clients\<close> points to an allocated \<open>Client\<close> whose
  \<open>ID\<close> field is the key it is stored under: the entry is written once, under
  \<open>client.ID\<close>, and no code assigns the field afterwards.
\<close>

lemma handleMessage_clients_Some:
  "clients (handleMessage c msg s) i = Some r \<Longrightarrow> clients s i = Some r"
  by (auto simp: handleMessage_def Let_def sendTo_def split: if_splits option.splits)

lemma handleMessage_cID [simp]: "cID (heap (handleMessage c msg s) r) = cID (heap s r)"
  by (auto simp: handleMessage_def Let_def sendTo_def split: if_splits option.splits)

lemma handleMessage_nextRef [simp]: "nextRef (handleMessage c msg s) = nextRef s"
  by (auto simp: handleMessage_def Let_def sendTo_def split: if_splits option.splits)

lemma step_registry:
  assumes "\<forall>i r. clients s i = Some r \<longrightarrow> cID (heap s r) = i \<and> r < nextRef s"
    and "clients (step e s) i = Some r"
  shows "cID (heap (step e s) r) = i \<and> r < nextRef (step e s)"
proof (cases e)
  case (Connect j c)
  show ?thesis
  proof (cases "i = j")
    case True
    with Connect assms(2) show ?thesis
      by (simp add: handleWebSocket_connect_def Let_def)
  next
    case False
    with Connect assms(2) have old: "clients s i = Some r"
      by (simp add: handleWebSocket_connect_def Let_def)
    with assms(1) have "cID (heap s r) = i" "r < nextRef s" by blast+
    with Connect show ?thesis
      by (simp add: handleWebSocket_connect_def Let_def)
  qed
next
  case (Recv c f)
  with assms show ?thesis
    by (cases f) (auto dest: handleMessage_clients_Some split: if_splits)
next
  case (ReadError c)
  with assms show ?thesis
    by (auto simp: handleWebSocket_exit_def Let_def split: if_splits)
qed

lemma reachable_registry:
  "reachable s \<Longrightarrow> clients s i = Some r \<Longrightarrow> cID (heap s r) = i \<and> r < nextRef s"
proof (induction arbitrary: i r rule: reachable.induct)
  case reachable_init
  then show ?case by (simp add: init_def)
next
  case (reachable_step s e)
  show ?case
    by (rule step_registry [OF _ reachable_step.prems]) (use reachable_step.IH in blast)
qed

lemma map_filter_registered:
  assumes "\<And>i r. clients s i = Some r \<Longrightarrow> cID (heap s r) = i"
  shows "map (\<lambda>c. cID (heap s c)) (List.map_filter (clients s) ids) =
           filter (\<lambda>i. clients s i \<noteq> None) ids"
  using assms by (induction ids) (auto split: option.splits)

section \<open>The example runs, evaluated\<close>

lemma exConn_fields:
  "clients exConn ''A'' = Some 0"
  "roomUsers exConn = Map.empty"
  "heap exConn 0 = \<lparr>cID = ''A'', cConn = 10, cRoom = [], cMicOn = True\<rparr>"
  "live exConn = {0}"
  by (simp_all add: exConn_def init_def handleWebSocket_connect_def Let_def)

lemma exA_fields:
  "clients exA = [''A'' \<mapsto> 0]"
  "roomUsers exA = [''r1'' \<mapsto> [''A'']]"
  "heap exA 0 = \<lparr>cID = ''A'', cConn = 10, cRoom = ''r1'', cMicOn = True\<rparr>"
  "live exA = {0}"
  "nextRef exA = 1"
  by (simp_all add: exA_def exConn_def init_def joinMsg_def zeroMessage_def
      handleWebSocket_connect_def handleMessage_def Let_def members_def)

lemma exAB_fields:
  "clients exAB = [''A'' \<mapsto> 0, ''B'' \<mapsto> 1]"
  "roomUsers exAB = [''r1'' \<mapsto> [''A'', ''B'']]"
  "heap exAB 0 = \<lparr>cID = ''A'', cConn = 10, cRoom = ''r1'', cMicOn = True\<rparr>"
  "heap exAB (Suc 0) = \<lparr>cID = ''B'', cConn = 11, cRoom = ''r1'', cMicOn = True\<rparr>"
  "live exAB = {0, 1}"
  by (simp_all add: exAB_def exA_fields joinMsg_def zeroMessage_def
      handleWebSocket_connect_def handleMessage_def Let_def members_def) auto

lemma exRooms_fields:
  "clients exRooms = [''A'' \<mapsto> 0, ''B'' \<mapsto> 1]"
  "roomUsers exRooms = [''r1'' \<mapsto> [''A''], ''r2'' \<mapsto> [''B'']]"
  "heap exRooms 0 = \<lparr>cID = ''A'', cConn = 10, cRoom = ''r1'', cMicOn = True\<rparr>"
  by (simp_all add: exRooms_def exA_fields joinMsg_def zeroMessage_def
      handleWebSocket_connect_def handleMessage_def Let_def members_def)

lemma exSwitch_fields:
  "clients exSwitch ''A'' = Some 0"
  "roomUsers exSwitch ''r1'' = Some [''A'']"
  "roomUsers exSwitch ''r2'' = Some [''A'']"
  "heap exSwitch 0 = \<lparr>cID = ''A'', cConn = 10, cRoom = ''r2'', cMicOn = True\<rparr>"
  by (simp_all add: exSwitch_def exA_fields joinMsg_def handleMessage_def zeroMessage_def
      Let_def members_def)

lemma exStale_fields:
  "clients exStale ''A'' = None"
  "clients exStale ''B'' = Some (Suc 0)"
  "roomUsers exStale ''r1'' = Some [''B'', ''A'']"
  "heap exStale 0 = \<lparr>cID = ''A'', cConn = 10, cRoom = ''r1'', cMicOn = True\<rparr>"
  "live exStale = {0, 1}"
  "heap exStale (Suc 0) = \<lparr>cID = ''B'', cConn = 11, cRoom = ''r1'', cMicOn = True\<rparr>"
  by (simp_all add: exStale_def exAB_fields joinMsg_def leaveMsg_def roomUsers_removeClient
      handleMessage_def zeroMessage_def Let_def members_def)

lemma reachable_exStale: "reachable exStale"
  unfolding exStale_def exAB_def exA_def exConn_def by (intro reachable.intros)

section \<open>Joining\<close>

text \<open>
  Claim C1 says that a join for a room whose member list already holds the connection's
  identifier does not append it again, so that no list ever holds an identifier twice.
  The \<open>join\<close> case appends without looking at the list: after \<open>A\<close> has joined \<open>r1\<close>, a
  second join of \<open>A\<close> for \<open>r1\<close> leaves \<open>A\<close> twice in the list.
\<close>

theorem repeated_join_duplicates_member:
  "cID (heap exA 0) \<in> set (members exA ''r1'') \<and>
   members (step (Recv 0 (Decoded (joinMsg ''r1''))) exA) ''r1'' = [''A'', ''A''] \<and>
   \<not> distinct (members (step (Recv 0 (Decoded (joinMsg ''r1''))) exA) ''r1'')"
  by (simp add: members_def handleMessage_def joinMsg_def zeroMessage_def exA_fields Let_def)

text \<open>
  Claim C1 as the code has it: handling a join always appends the connection's
  identifier to the end of the named room's member list and changes no other room's
  list; the list is free of duplicates afterwards exactly when it was before and did not
  hold the identifier yet.
\<close>

theorem join_appends_unconditionally:
  "mType msg = ''join'' \<Longrightarrow>
     members (handleMessage c msg s) (mRoom msg) = members s (mRoom msg) @ [cID (heap s c)] \<and>
     (\<forall>room. room \<noteq> mRoom msg \<longrightarrow> roomUsers (handleMessage c msg s) room = roomUsers s room) \<and>
     (distinct (members (handleMessage c msg s) (mRoom msg)) \<longleftrightarrow>
        distinct (members s (mRoom msg)) \<and> cID (heap s c) \<notin> set (members s (mRoom msg)))"
  by (auto simp: handleMessage_def Let_def members_def)

theorem join_appends_unconditionally_witness:
  "mType (joinMsg ''r1'') = ''join'' \<and>
   members (handleMessage 0 (joinMsg ''r1'') exConn) ''r1'' = [''A''] \<and>
   ''r2'' \<noteq> mRoom (joinMsg ''r1'') \<and>
   roomUsers (handleMessage 0 (joinMsg ''r1'') exConn) ''r2'' = None \<and>
   distinct (members (handleMessage 0 (joinMsg ''r1'') exConn) ''r1'')"
  using join_appends_unconditionally [of "joinMsg ''r1''" 0 exConn]
  by (simp add: joinMsg_def zeroMessage_def exConn_fields members_def)

text \<open>
  Claim C9: a join for a room \<open>B\<close> by a connection whose identifier is in the list of
  another room \<open>A\<close> appends the identifier to \<open>B\<close>'s list and leaves \<open>A\<close>'s list as it
  was, so the identifier is in both; the connection's room field is now \<open>B\<close>, and a
  following \<open>removeClient\<close> takes the identifier out of \<open>B\<close>'s list only.
\<close>

theorem join_other_room_keeps_old_membership:
  "mType msg = ''join'' \<Longrightarrow> cID (heap s c) \<in> set (members s a) \<Longrightarrow> a \<noteq> mRoom msg \<Longrightarrow>
     members (handleMessage c msg s) a = members s a \<and>
     members (handleMessage c msg s) (mRoom msg) = members s (mRoom msg) @ [cID (heap s c)] \<and>
     cID (heap s c) \<in> set (members (handleMessage c msg s) a) \<and>
     cID (heap s c) \<in> set (members (handleMessage c msg s) (mRoom msg)) \<and>
     cRoom (heap (handleMessage c msg s) c) = mRoom msg \<and>
     members (removeClient c (handleMessage c msg s)) a = members s a \<and>
     cID (heap s c) \<in> set (members (removeClient c (handleMessage c msg s)) a) \<and>
     cID (heap s c) \<notin> set (members (removeClient c (handleMessage c msg s)) (mRoom msg))"
proof -
  assume j: "mType msg = ''join''" and m: "cID (heap s c) \<in> set (members s a)"
    and ne: "a \<noteq> mRoom msg"
  from j ne have old: "members (handleMessage c msg s) a = members s a"
    by (simp add: handleMessage_def Let_def members_def)
  from j have new: "members (handleMessage c msg s) (mRoom msg) =
      members s (mRoom msg) @ [cID (heap s c)]"
    by (simp add: handleMessage_def Let_def members_def)
  from j have field: "cRoom (heap (handleMessage c msg s) c) = mRoom msg"
    by (simp add: handleMessage_def Let_def)
  from old new field m ne show ?thesis
    by (simp add: members_removeClient)
qed

theorem join_other_room_keeps_old_membership_witness:
  "mType (joinMsg ''r2'') = ''join'' \<and> cID (heap exA 0) \<in> set (members exA ''r1'') \<and>
   ''r1'' \<noteq> mRoom (joinMsg ''r2'') \<and>
   members (handleMessage 0 (joinMsg ''r2'') exA) ''r1'' = [''A''] \<and>
   members (handleMessage 0 (joinMsg ''r2'') exA) ''r2'' = [''A''] \<and>
   members (removeClient 0 (handleMessage 0 (joinMsg ''r2'') exA)) ''r1'' = [''A''] \<and>
   ''A'' \<notin> set (members (removeClient 0 (handleMessage 0 (joinMsg ''r2'') exA)) ''r2'')"
  using join_other_room_keeps_old_membership [of "joinMsg ''r2''" exA 0 "''r1''"]
  by (simp add: joinMsg_def zeroMessage_def exA_fields members_def)

section \<open>Removing\<close>

text \<open>
  Claim C2 says that after \<open>removeClient\<close> the identifier is absent from the registry
  and from every room's member list, and that a second call changes nothing. The list
  that \<open>removeClient\<close> filters is the one named by the connection's room field: after
  \<open>A\<close> has joined \<open>r1\<close> and then \<open>r2\<close>, removing \<open>A\<close> leaves it in the list of \<open>r1\<close>.
\<close>

theorem removeClient_leaves_earlier_room:
  "cID (heap exSwitch 0) = ''A'' \<and> clients (removeClient 0 exSwitch) ''A'' = None \<and>
   ''A'' \<in> set (members (removeClient 0 exSwitch) ''r1'')"
  by (simp add: members_removeClient exSwitch_fields) (simp add: members_def exSwitch_fields)

text \<open>
  Claim C2 as the code has it: after \<open>removeClient\<close> the lookup of the connection's
  identifier is absent and the identifier is not in the member list of the room named by
  the connection's room field; a second call returns the state of the first unchanged.
\<close>

theorem removeClient_postcondition:
  "clients (removeClient c s) (cID (heap s c)) = None \<and>
   cID (heap s c) \<notin> set (members (removeClient c s) (cRoom (heap s c))) \<and>
   removeClient c (removeClient c s) = removeClient c s"
  by (simp add: members_removeClient removeClient_idem)

theorem removeClient_postcondition_witness:
  "clients (removeClient 0 exAB) ''A'' = None \<and>
   ''A'' \<notin> set (members (removeClient 0 exAB) ''r1'') \<and>
   removeClient 0 (removeClient 0 exAB) = removeClient 0 exAB"
  using removeClient_postcondition [of 0 exAB]
  by (simp add: exAB_fields)

text \<open>
  Claim C10: \<open>removeClient\<close> for connection \<open>c\<close> changes at most the registry entry
  under \<open>c\<close>'s identifier and the member list of the room named by \<open>c\<close>'s room field.
  Every other registry entry, every other room's list, the \<open>Client\<close> structs and the
  messages written stay as they were.
\<close>

theorem removeClient_frame:
  "(\<forall>i. i \<noteq> cID (heap s c) \<longrightarrow> clients (removeClient c s) i = clients s i) \<and>
   (\<forall>room. room \<noteq> cRoom (heap s c) \<longrightarrow>
      roomUsers (removeClient c s) room = roomUsers s room) \<and>
   heap (removeClient c s) = heap s \<and>
   sent (removeClient c s) = sent s \<and>
   live (removeClient c s) = live s \<and>
   nextRef (removeClient c s) = nextRef s"
  by (simp add: roomUsers_removeClient split: option.splits)

theorem removeClient_frame_witness:
  "''B'' \<noteq> cID (heap exRooms 0) \<and> clients (removeClient 0 exRooms) ''B'' = Some 1 \<and>
   ''r2'' \<noteq> cRoom (heap exRooms 0) \<and> roomUsers (removeClient 0 exRooms) ''r2'' = Some [''B''] \<and>
   heap (removeClient 0 exRooms) = heap exRooms"
  using removeClient_frame [of exRooms 0]
  by (simp add: exRooms_fields)

section \<open>Leaving\<close>

text \<open>
  Claim C3 says that a leave takes the identifier out of the current room's list, clears
  the connection's room field, keeps the connection in the registry and broadcasts for
  the room just left. The \<open>leave\<close> case calls \<open>removeClient\<close> and then broadcasts for
  the room named in the message: when \<open>A\<close>, in \<open>r1\<close> with \<open>B\<close>, sends a leave without a
  room name, \<open>A\<close> is gone from the registry, its room field is still \<open>r1\<close>, and nothing is
  written to \<open>B\<close>.
\<close>

theorem leave_deletes_registry_entry:
  "clients exAB ''A'' = Some 0 \<and> cRoom (heap exAB 0) = ''r1'' \<and>
   members exAB ''r1'' = [''A'', ''B''] \<and>
   clients (handleMessage 0 (leaveMsg []) exAB) ''A'' = None \<and>
   cRoom (heap (handleMessage 0 (leaveMsg []) exAB) 0) = ''r1'' \<and>
   sent (handleMessage 0 (leaveMsg []) exAB) = sent exAB"
  by (simp add: handleMessage_def leaveMsg_def zeroMessage_def exAB_fields members_def
      broadcastUserList_eq roomUsers_removeClient)

text \<open>
  Claim C3 as the code has it: handling a leave filters the connection's identifier out
  of the member list of the room named by its room field and changes no other room's
  list (no list at all when the identifier is not in that list); the \<open>Client\<close> structs,
  the room field among them, are unchanged; the connection's entry is deleted from the
  registry; and when the message names the room of the room field, the rest of the step
  is the broadcast for that room on the state after the removal.
\<close>

theorem leave_removes_client:
  "mType msg = ''leave'' \<Longrightarrow>
     members (handleMessage c msg s) (cRoom (heap s c)) =
       filter (\<lambda>i. i \<noteq> cID (heap s c)) (members s (cRoom (heap s c))) \<and>
     (\<forall>room. room \<noteq> cRoom (heap s c) \<longrightarrow>
        roomUsers (handleMessage c msg s) room = roomUsers s room) \<and>
     (cID (heap s c) \<notin> set (members s (cRoom (heap s c))) \<longrightarrow>
        roomUsers (handleMessage c msg s) = roomUsers s) \<and>
     heap (handleMessage c msg s) = heap s \<and>
     clients (handleMessage c msg s) = (clients s)(cID (heap s c) := None) \<and>
     (mRoom msg = cRoom (heap s c) \<longrightarrow>
        handleMessage c msg s = broadcastUserList (cRoom (heap s c)) (removeClient c s))"
proof -
  assume t: "mType msg = ''leave''"
  then have eq: "handleMessage c msg s = broadcastUserList (mRoom msg) (removeClient c s)"
    by (simp add: handleMessage_def)
  have noop: "cID (heap s c) \<notin> set (members s (cRoom (heap s c))) \<Longrightarrow>
      roomUsers (removeClient c s) = roomUsers s"
    by (auto simp: roomUsers_removeClient members_def filter_id_conv split: option.splits)
  have other: "\<And>room. room \<noteq> cRoom (heap s c) \<Longrightarrow>
      roomUsers (removeClient c s) room = roomUsers s room"
    by (simp add: roomUsers_removeClient split: option.splits)
  show ?thesis
    unfolding eq using noop other by (simp add: members_removeClient)
qed

theorem leave_removes_client_witness:
  "mType (leaveMsg ''r1'') = ''leave'' \<and> mRoom (leaveMsg ''r1'') = cRoom (heap exAB 0) \<and>
   members (handleMessage 0 (leaveMsg ''r1'') exAB) ''r1'' = [''B''] \<and>
   ''r2'' \<noteq> cRoom (heap exAB 0) \<and>
   roomUsers (handleMessage 0 (leaveMsg ''r1'') exAB) ''r2'' = None \<and>
   clients (handleMessage 0 (leaveMsg ''r1'') exAB) ''A'' = None \<and>
   cRoom (heap (handleMessage 0 (leaveMsg ''r1'') exAB) 0) = ''r1'' \<and>
   sent (handleMessage 0 (leaveMsg ''r1'') exAB) = sent exAB @
     [(11, zeroMessage\<lparr>mType := ''user_list'', mUsers := [\<lparr>uID = ''B'', uMicOn = True\<rparr>]\<rparr>)] \<and>
   cID (heap exConn 0) \<notin> set (members exConn (cRoom (heap exConn 0))) \<and>
   roomUsers (handleMessage 0 (leaveMsg []) exConn) = roomUsers exConn"
  using leave_removes_client [of "leaveMsg ''r1''" 0 exAB]
    leave_removes_client [of "leaveMsg []" 0 exConn]
  by (simp add: leaveMsg_def zeroMessage_def exAB_fields exConn_fields members_def
      broadcastUserList_eq broadcastUserList_users_append roomUsers_removeClient)

section \<open>Broadcasting\<close>

text \<open>
  Claim C4: in every reachable state the roster built for a broadcast of any room holds
  only identifiers that are in the registry. Its identifiers are, in order, the entries
  of the room's member list that have a registry entry; the others are left out of the
  roster, every message of the broadcast carries that roster, and the broadcast changes
  neither the registry nor the member lists.
\<close>

theorem roster_only_registered:
  "reachable s \<Longrightarrow>
     (\<forall>u \<in> set (broadcastUserList_users s (members s room) []). clients s (uID u) \<noteq> None) \<and>
     map uID (broadcastUserList_users s (members s room) []) =
       filter (\<lambda>i. clients s i \<noteq> None) (members s room) \<and>
     (\<exists>ms. sent (broadcastUserList room s) = sent s @ ms \<and>
        (\<forall>p \<in> set ms. snd p = zeroMessage\<lparr>mType := ''user_list'',
            mUsers := broadcastUserList_users s (members s room) []\<rparr>)) \<and>
     clients (broadcastUserList room s) = clients s \<and>
     roomUsers (broadcastUserList room s) = roomUsers s"
proof -
  assume r: "reachable s"
  have ids: "map uID (broadcastUserList_users s (members s room) []) =
       filter (\<lambda>i. clients s i \<noteq> None) (members s room)"
    using map_filter_registered [of s "members s room"] reachable_registry [OF r]
    by (simp add: broadcastUserList_users_append comp_def)
  have "\<forall>i \<in> set (map uID (broadcastUserList_users s (members s room) [])).
      clients s i \<noteq> None"
    unfolding ids by simp
  then have registered:
    "\<forall>u \<in> set (broadcastUserList_users s (members s room) []). clients s (uID u) \<noteq> None"
    by simp
  have written: "\<exists>ms. sent (broadcastUserList room s) = sent s @ ms \<and>
        (\<forall>p \<in> set ms. snd p = zeroMessage\<lparr>mType := ''user_list'',
            mUsers := broadcastUserList_users s (members s room) []\<rparr>)"
    by (auto simp: broadcastUserList_eq)
  from ids registered written show ?thesis by simp
qed

theorem roster_only_registered_witness:
  "reachable exStale \<and> members exStale ''r1'' = [''B'', ''A''] \<and>
   clients exStale ''A'' = None \<and>
   broadcastUserList_users exStale (members exStale ''r1'') [] =
     [\<lparr>uID = ''B'', uMicOn = True\<rparr>]"
  using roster_only_registered [of exStale "''r1''"] reachable_exStale
  by (simp add: exStale_fields members_def)

text \<open>
  Claim C8 says that one broadcast builds the roster once and pushes one message with
  it to every member of the room. The sending loop skips a listed identifier that has no
  registry entry: in \<open>exStale\<close> the handler of \<open>A\<close> is running on socket 10 and \<open>A\<close>
  is in the member list of \<open>r1\<close>, yet a broadcast for \<open>r1\<close> writes to socket 11 only.
\<close>

theorem broadcast_skips_unregistered_member:
  "reachable exStale \<and> ''A'' \<in> set (members exStale ''r1'') \<and>
   0 \<in> live exStale \<and> cID (heap exStale 0) = ''A'' \<and> cConn (heap exStale 0) = 10 \<and>
   drop (length (sent exStale)) (sent (broadcastUserList ''r1'' exStale)) =
     [(11, zeroMessage\<lparr>mType := ''user_list'', mUsers := [\<lparr>uID = ''B'', uMicOn = True\<rparr>]\<rparr>)]"
  using reachable_exStale
  by (simp add: exStale_fields members_def broadcastUserList_eq broadcastUserList_users_append)

text \<open>
  Claim C8 as the code has it: one call of \<open>broadcastUserList\<close> builds the roster
  once, from the state it is called in, and writes one \<open>user_list\<close> message with that
  roster for each entry of the room's member list that has a registry entry, to that
  entry's connection, and nothing else. Every message of the call is the same value, and
  every member with a registry entry is among the receivers.
\<close>

theorem broadcast_single_snapshot:
  "broadcastUserList room s =
     s\<lparr>sent := sent s @
        map (\<lambda>c. (cConn (heap s c),
               zeroMessage\<lparr>mType := ''user_list'',
                 mUsers := broadcastUserList_users s (members s room) []\<rparr>))
          (List.map_filter (clients s) (members s room))\<rparr> \<and>
   (\<forall>i \<in> set (members s room). \<forall>c. clients s i = Some c \<longrightarrow>
      (cConn (heap s c),
       zeroMessage\<lparr>mType := ''user_list'',
         mUsers := broadcastUserList_users s (members s room) []\<rparr>)
        \<in> set (drop (length (sent s)) (sent (broadcastUserList room s))))"
proof -
  have "\<And>i c. i \<in> set (members s room) \<Longrightarrow> clients s i = Some c \<Longrightarrow>
      (cConn (heap s c),
       zeroMessage\<lparr>mType := ''user_list'',
         mUsers := broadcastUserList_users s (members s room) []\<rparr>)
        \<in> set (drop (length (sent s)) (sent (broadcastUserList room s)))"
    using map_filter_mem [of _ "members s room" "clients s"]
    by (simp add: broadcastUserList_eq image_iff) blast
  then show ?thesis
    using broadcastUserList_eq [of room s] by blast
qed

theorem broadcast_single_snapshot_witness:
  "''B'' \<in> set (members exAB ''r1'') \<and> clients exAB ''B'' = Some 1 \<and>
   drop (length (sent exAB)) (sent (broadcastUserList ''r1'' exAB)) =
     [(10, zeroMessage\<lparr>mType := ''user_list'',
             mUsers := [\<lparr>uID = ''A'', uMicOn = True\<rparr>, \<lparr>uID = ''B'', uMicOn = True\<rparr>]\<rparr>),
      (11, zeroMessage\<lparr>mType := ''user_list'',
             mUsers := [\<lparr>uID = ''A'', uMicOn = True\<rparr>, \<lparr>uID = ''B'', uMicOn = True\<rparr>]\<rparr>)]"
  using broadcast_single_snapshot [of "''r1''" exAB]
  by (simp add: exAB_fields members_def broadcastUserList_users_append)

section \<open>Relaying and unknown messages\<close>

text \<open>
  Claim C5 says that a relayed offer, answer or candidate reaches the registered target
  as exactly one message, with \<open>from\<close> set to the sender's identifier and the payload
  byte-identical to the input. The handler does not touch the payload, but the frame is
  written by \<open>WriteJSON\<close>, which re-encodes it: when \<open>A\<close> relays to \<open>B\<close> an offer
  whose payload is the seven bytes \<open>[1, 2]\<close>, the frame to \<open>B\<close> carries the five bytes
  \<open>[1,2]\<close>.
\<close>

theorem relay_payload_recompacted:
  "mType (offerMsg ''B'' ''X'' ''[1, 2]'') = ''offer'' \<and>
   clients exAB (mTo (offerMsg ''B'' ''X'' ''[1, 2]'')) = Some 1 \<and>
   cConn (heap exAB 1) = 11 \<and>
   delivered (handleMessage 0 (offerMsg ''B'' ''X'' ''[1, 2]'') exAB) =
     delivered exAB @ [(11, offerMsg ''B'' ''A'' ''[1,2]'')] \<and>
   mOffer (offerMsg ''B'' ''A'' ''[1,2]'') \<noteq> mOffer (offerMsg ''B'' ''X'' ''[1, 2]'')"
  by (simp add: delivered_def writeJSON_frame_def handleMessage_def sendTo_def sendMessage_def
      offerMsg_def zeroMessage_def exAB_fields isSpace_def)

text \<open>
  Claim C5 as the code has it: when a handler gets an offer, answer or candidate whose
  \<open>to\<close> is in the registry, exactly one message is written, to the connection of that
  registry entry, and nothing else in the state changes. The message handed to
  \<open>WriteJSON\<close> is the one received with \<open>from\<close> replaced by the handler's own
  identifier; the frame carries each payload as the encoder compacts it, which is the
  input byte for byte when the input payloads are in compact form.
\<close>

theorem relay_delivers_once:
  "mType msg = ''offer'' \<or> mType msg = ''answer'' \<or> mType msg = ''candidate'' \<Longrightarrow>
   clients s (mTo msg) = Some target \<Longrightarrow>
     handleMessage c msg s =
       s\<lparr>sent := sent s @ [(cConn (heap s target), msg\<lparr>mFrom := cID (heap s c)\<rparr>)]\<rparr> \<and>
     delivered (handleMessage c msg s) =
       delivered s @ [(cConn (heap s target),
         msg\<lparr>mFrom := cID (heap s c),
             mOffer := appendCompact Outside (mOffer msg),
             mAnswer := appendCompact Outside (mAnswer msg),
             mCandidate := appendCompact Outside (mCandidate msg)\<rparr>)] \<and>
     (compactForm (mOffer msg) \<and> compactForm (mAnswer msg) \<and> compactForm (mCandidate msg) \<longrightarrow>
        delivered (handleMessage c msg s) =
          delivered s @ [(cConn (heap s target), msg\<lparr>mFrom := cID (heap s c)\<rparr>)])"
proof -
  assume t: "mType msg = ''offer'' \<or> mType msg = ''answer'' \<or> mType msg = ''candidate''"
    and r: "clients s (mTo msg) = Some target"
  from t r have eq: "handleMessage c msg s =
       s\<lparr>sent := sent s @ [(cConn (heap s target), msg\<lparr>mFrom := cID (heap s c)\<rparr>)]\<rparr>"
    by (auto simp: handleMessage_def sendTo_def sendMessage_def)
  have wire: "delivered (handleMessage c msg s) =
       delivered s @ [(cConn (heap s target),
         msg\<lparr>mFrom := cID (heap s c),
             mOffer := appendCompact Outside (mOffer msg),
             mAnswer := appendCompact Outside (mAnswer msg),
             mCandidate := appendCompact Outside (mCandidate msg)\<rparr>)]"
    unfolding eq by (simp add: delivered_def writeJSON_frame_def)
  have plain: "compactForm (mOffer msg) \<and> compactForm (mAnswer msg) \<and>
      compactForm (mCandidate msg) \<longrightarrow>
        delivered (handleMessage c msg s) =
          delivered s @ [(cConn (heap s target), msg\<lparr>mFrom := cID (heap s c)\<rparr>)]"
    unfolding wire by (simp add: appendCompact_plain)
  from eq wire plain show ?thesis by blast
qed

theorem relay_delivers_once_witness:
  "mType (offerMsg ''B'' ''X'' ''[1,2]'') = ''offer'' \<and>
   clients exAB (mTo (offerMsg ''B'' ''X'' ''[1,2]'')) = Some 1 \<and>
   compactForm (mOffer (offerMsg ''B'' ''X'' ''[1,2]'')) \<and>
   compactForm (mAnswer (offerMsg ''B'' ''X'' ''[1,2]'')) \<and>
   compactForm (mCandidate (offerMsg ''B'' ''X'' ''[1,2]'')) \<and>
   sent (handleMessage 0 (offerMsg ''B'' ''X'' ''[1,2]'') exAB) =
     sent exAB @ [(11, offerMsg ''B'' ''A'' ''[1,2]'')] \<and>
   delivered (handleMessage 0 (offerMsg ''B'' ''X'' ''[1,2]'') exAB) =
     delivered exAB @ [(11, offerMsg ''B'' ''A'' ''[1,2]'')]"
proof -
  have t: "mType (offerMsg ''B'' ''X'' ''[1,2]'') = ''offer''"
    by (simp add: offerMsg_def zeroMessage_def)
  have r: "clients exAB (mTo (offerMsg ''B'' ''X'' ''[1,2]'')) = Some 1"
    by (simp add: offerMsg_def zeroMessage_def exAB_fields)
  have p: "compactForm (mOffer (offerMsg ''B'' ''X'' ''[1,2]'')) \<and>
      compactForm (mAnswer (offerMsg ''B'' ''X'' ''[1,2]'')) \<and>
      compactForm (mCandidate (offerMsg ''B'' ''X'' ''[1,2]''))"
    by (simp add: offerMsg_def zeroMessage_def compactForm_def isSpace_def)
  have upd: "(offerMsg ''B'' ''X'' ''[1,2]'')\<lparr>mFrom := cID (heap exAB 0)\<rparr> =
      offerMsg ''B'' ''A'' ''[1,2]''" "cConn (heap exAB 1) = 11"
    by (simp_all add: offerMsg_def zeroMessage_def exAB_fields)
  from relay_delivers_once [of "offerMsg ''B'' ''X'' ''[1,2]''" exAB 1 0] t r
  have all: "handleMessage 0 (offerMsg ''B'' ''X'' ''[1,2]'') exAB =
       exAB\<lparr>sent := sent exAB @ [(11, offerMsg ''B'' ''A'' ''[1,2]'')]\<rparr>"
    "compactForm (mOffer (offerMsg ''B'' ''X'' ''[1,2]'')) \<and>
      compactForm (mAnswer (offerMsg ''B'' ''X'' ''[1,2]'')) \<and>
      compactForm (mCandidate (offerMsg ''B'' ''X'' ''[1,2]'')) \<longrightarrow>
     delivered (handleMessage 0 (offerMsg ''B'' ''X'' ''[1,2]'') exAB) =
       delivered exAB @ [(11, offerMsg ''B'' ''A'' ''[1,2]'')]"
    unfolding upd by blast+
  from all(1) have s: "sent (handleMessage 0 (offerMsg ''B'' ''X'' ''[1,2]'') exAB) =
     sent exAB @ [(11, offerMsg ''B'' ''A'' ''[1,2]'')]"
    by simp
  from all(2) p have d: "delivered (handleMessage 0 (offerMsg ''B'' ''X'' ''[1,2]'') exAB) =
     delivered exAB @ [(11, offerMsg ''B'' ''A'' ''[1,2]'')]"
    by blast
  from t r p s d show ?thesis by blast
qed

text \<open>
  Claim C6: when the \<open>to\<close> of an offer, answer or candidate is not in the registry, the
  state after handling it is the state before: nothing is written to any connection,
  the sender included, and the registry and the member lists are unchanged.
\<close>

theorem relay_miss_inert:
  "mType msg = ''offer'' \<or> mType msg = ''answer'' \<or> mType msg = ''candidate'' \<Longrightarrow>
   clients s (mTo msg) = None \<Longrightarrow>
     handleMessage c msg s = s"
  by (auto simp: handleMessage_def sendTo_def)

theorem relay_miss_inert_witness:
  "mType (offerMsg ''Z'' ''X'' ''[1,2]'') = ''offer'' \<and>
   clients exAB (mTo (offerMsg ''Z'' ''X'' ''[1,2]'')) = None \<and>
   handleMessage 0 (offerMsg ''Z'' ''X'' ''[1,2]'') exAB = exAB"
  using relay_miss_inert [of "offerMsg ''Z'' ''X'' ''[1,2]''" exAB 0]
  by (simp add: offerMsg_def zeroMessage_def exAB_fields)

text \<open>
  Claim C7: a decoded message whose type is none of join, leave, mic, offer, answer and
  candidate leaves the whole state as it is (registry, member lists, room and mic fields,
  messages written), and the read loop goes on with the next frame.
\<close>

theorem unknown_type_inert:
  "mType msg \<noteq> ''join'' \<Longrightarrow> mType msg \<noteq> ''leave'' \<Longrightarrow> mType msg \<noteq> ''mic'' \<Longrightarrow>
   mType msg \<noteq> ''offer'' \<Longrightarrow> mType msg \<noteq> ''answer'' \<Longrightarrow> mType msg \<noteq> ''candidate'' \<Longrightarrow>
     handleMessage c msg s = s \<and>
     step (Recv c (Decoded msg)) s = s \<and>
     handleWebSocket_loop c (Decoded msg # fs) s = handleWebSocket_loop c fs s"
  by (simp add: handleMessage_def)

theorem unknown_type_inert_witness:
  "mType (zeroMessage\<lparr>mType := ''ping''\<rparr>) \<noteq> ''join'' \<and>
   mType (zeroMessage\<lparr>mType := ''ping''\<rparr>) \<noteq> ''leave'' \<and>
   mType (zeroMessage\<lparr>mType := ''ping''\<rparr>) \<noteq> ''mic'' \<and>
   mType (zeroMessage\<lparr>mType := ''ping''\<rparr>) \<noteq> ''offer'' \<and>
   mType (zeroMessage\<lparr>mType := ''ping''\<rparr>) \<noteq> ''answer'' \<and>
   mType (zeroMessage\<lparr>mType := ''ping''\<rparr>) \<noteq> ''candidate'' \<and>
   handleMessage 0 (zeroMessage\<lparr>mType := ''ping''\<rparr>) exAB = exAB \<and>
   step (Recv 0 (Decoded (zeroMessage\<lparr>mType := ''ping''\<rparr>))) exAB = exAB \<and>
   handleWebSocket_loop 0 [Decoded (zeroMessage\<lparr>mType := ''ping''\<rparr>)] exAB =
     handleWebSocket_loop 0 [] exAB"
  using unknown_type_inert [of "zeroMessage\<lparr>mType := ''ping''\<rparr>" 0 exAB "[]"]
  by simp

end
